theory Spec2Isabelle
  imports Main
begin

section \<open>Credential lifecycle: the persisted configuration\<close>

text \<open>
  The interface \<open>SpotifyConfig\<close> of \<^verbatim>\<open>TOKEN_REFRESH_FIX.md\<close> (lines 39-46). The three
  optional fields are options; \<open>expiresAt\<close> is a Unix timestamp in milliseconds. JavaScript
  numbers are doubles; the model keeps the integer-valued ones, on which the arithmetic
  of the code is exact.
\<close>

record SpotifyConfig =
  clientId :: string
  clientSecret :: string
  redirectUri :: string
  accessToken :: "string option"
  refreshToken :: "string option"
  expiresAt :: "int option"

text \<open>
  The failure kinds of the specification (section 7). The code itself only throws and
  rethrows JavaScript errors; the kinds name which one.
\<close>

datatype error =
    ConfigMissing
  | NotBootstrapped
  | AuthExpired
  | NetworkError
  | PersistenceError
  | AuthorizationFailed

text \<open>
  What a request to the token endpoint can end with other than a JSON body: the endpoint
  answers with an error (the text of its body is kept), or the transport fails.
\<close>

datatype failure = Rejected string | Unreachable

text \<open>
  The JSON body of a successful answer of the token endpoint: \<open>access_token\<close>,
  \<open>expires_in\<close> (seconds) and, optionally, \<open>refresh_token\<close> (the \<open>data\<close> of lines
  99-103).
\<close>

record token_data =
  data_access_token :: string
  data_refresh_token :: "string option"
  data_expires_in :: int

text \<open>
  The result type of \<open>refreshAccessToken\<close> (line 55) has exactly two fields; the result of
  \<open>exchangeCodeForToken\<close> (lines 99-103) has the same two and \<open>refresh_token\<close>.
\<close>

record refreshed =
  access_token :: string
  expires_in :: int


text \<open>
  The world the functions act on: the persisted document \<^verbatim>\<open>spotify-config.json\<close>
  (\<open>None\<close>: no identity has been configured), whether the durable storage accepts a
  write, and the log of the calls of \<open>refreshAccessToken\<close>, each with the configuration
  object it was given.
\<close>

record world =
  document :: "SpotifyConfig option"
  writable :: bool
  refreshLog :: "SpotifyConfig list"

subsection \<open>The store\<close>

text \<open>
  Modelled from the spec: \<open>loadSpotifyConfig\<close> and \<open>saveSpotifyConfig\<close> live in
  \<^verbatim>\<open>src/utils.ts\<close>, which is not among the sources. Section 4.1: \<open>load\<close> returns the
  record of the durable document and fails with \<open>ConfigMissing\<close> when no identity is
  present; \<open>save\<close> writes the full record and fails with \<open>PersistenceError\<close> on an I/O
  failure, leaving the document as it was.
\<close>

definition loadSpotifyConfig :: "world \<Rightarrow> error + SpotifyConfig" where
  "loadSpotifyConfig w =
     (case document w of None \<Rightarrow> Inl ConfigMissing | Some config \<Rightarrow> Inr config)"

definition saveSpotifyConfig :: "SpotifyConfig \<Rightarrow> world \<Rightarrow> error + world" where
  "saveSpotifyConfig config w =
     (if writable w then Inr (w\<lparr>document := Some config\<rparr>) else Inl PersistenceError)"

subsection \<open>The refresher\<close>

text \<open>
  Only the signature of \<open>refreshAccessToken\<close> and the description of its body are in the
  sources (lines 53-66): it posts the refresh token to the token endpoint and returns the
  new \<open>access_token\<close> and its \<open>expires_in\<close>. The answer of the endpoint is a parameter
  of the model. \<open>refreshResult\<close> is what the function makes of the answer: the declared
  result type has no field for a refresh token, so one the endpoint supplies is dropped
  here. A rejection is the specification's \<open>RefreshRejected\<close>, which the caller sees as
  \<open>AuthExpired\<close>; a transport failure is \<open>NetworkError\<close>.
\<close>

definition refreshResult :: "failure + token_data \<Rightarrow> error + refreshed" where
  "refreshResult reply =
     (case reply of
        Inl (Rejected msg) \<Rightarrow> Inl AuthExpired
      | Inl Unreachable \<Rightarrow> Inl NetworkError
      | Inr data \<Rightarrow>
          Inr \<lparr>access_token = data_access_token data, expires_in = data_expires_in data\<rparr>)"

definition refreshAccessToken ::
  "failure + token_data \<Rightarrow> SpotifyConfig \<Rightarrow> world \<Rightarrow> (error + refreshed) \<times> world" where
  "refreshAccessToken reply config w =
     (refreshResult reply, w\<lparr>refreshLog := refreshLog w @ [config]\<rparr>)"

subsection \<open>The credential manager\<close>

text \<open>
  JavaScript truthiness of an optional string: \<open>undefined\<close> and the empty string are
  falsy.
\<close>

definition truthy :: "string option \<Rightarrow> bool" where
  "truthy s = (case s of None \<Rightarrow> False | Some t \<Rightarrow> t \<noteq> [])"

text \<open>
  Line 75: \<^verbatim>\<open>const shouldRefresh = !config.expiresAt || config.expiresAt <= now;\<close>
  The negation is true for \<open>undefined\<close> and also for the number 0. \<open>now\<close> is
  \<open>Date.now()\<close>, the milliseconds elapsed since the epoch, a natural number.
\<close>

definition shouldRefresh :: "SpotifyConfig \<Rightarrow> nat \<Rightarrow> bool" where
  "shouldRefresh config now =
     (case expiresAt config of None \<Rightarrow> True | Some e \<Rightarrow> e = 0 \<or> e \<le> int now)"

text \<open>
  \<open>createSpotifyApi\<close> (lines 70-86). The result is the access token the API instance is
  created with (line 84), and the world after the call. The clock is read once (line
  74) and that reading is used for the test and for the new \<open>expiresAt\<close>. The call of
  \<open>refreshAccessToken\<close> is awaited outside any \<open>try\<close>, so its failure leaves the function
  before lines 80-82. Inside the guarded block the access token is present, so the
  \<open>None\<close> case of the branch that does not refresh is never taken. The excerpt ends
  after the guarded block.

  Modelled from the spec: what the function yields when the guard of line 73 is false is
  not in the excerpt; section 4.3 names the outcome of a record without tokens
  \<open>NotBootstrapped\<close>.
\<close>

definition createSpotifyApi ::
  "failure + token_data \<Rightarrow> nat \<Rightarrow> world \<Rightarrow> (error + string) \<times> world" where
  "createSpotifyApi reply now w =
     (case loadSpotifyConfig w of
        Inl e \<Rightarrow> (Inl e, w)
      | Inr config \<Rightarrow>
          if truthy (accessToken config) \<and> truthy (refreshToken config) then
            if shouldRefresh config now then
              (case refreshAccessToken reply config w of
                 (Inl e, w1) \<Rightarrow> (Inl e, w1)
               | (Inr tokens, w1) \<Rightarrow>
                   (case saveSpotifyConfig
                           (config\<lparr>accessToken := Some (access_token tokens),
                                   expiresAt := Some (int now + expires_in tokens * 1000)\<rparr>) w1 of
                      Inl e \<Rightarrow> (Inl e, w1)
                    | Inr w2 \<Rightarrow> (Inr (access_token tokens), w2)))
            else
              (case accessToken config of
                 None \<Rightarrow> (Inl NotBootstrapped, w)
               | Some token \<Rightarrow> (Inr token, w))
          else (Inl NotBootstrapped, w))"

subsection \<open>The credential manager at its point of suspension\<close>

text \<open>
  \<open>createSpotifyApi\<close> is an \<open>async\<close> function with a single \<open>await\<close> (line 79); the
  store is read and written synchronously. A call therefore runs without interruption up
  to the moment the refresh request has been sent, and again from the arrival of the
  answer to its end. \<open>createSpotifyApi_start\<close> is the first stretch: it either finishes
  the call, or leaves it suspended with the configuration object it loaded and its
  reading of the clock. \<open>createSpotifyApi_resume\<close> is the second stretch (lines 79-84).
\<close>

datatype suspended = Suspended SpotifyConfig nat

definition createSpotifyApi_start ::
  "nat \<Rightarrow> world \<Rightarrow> ((error + string) + suspended) \<times> world" where
  "createSpotifyApi_start now w =
     (case loadSpotifyConfig w of
        Inl e \<Rightarrow> (Inl (Inl e), w)
      | Inr config \<Rightarrow>
          if truthy (accessToken config) \<and> truthy (refreshToken config) then
            if shouldRefresh config now then
              (Inr (Suspended config now), w\<lparr>refreshLog := refreshLog w @ [config]\<rparr>)
            else
              (case accessToken config of
                 None \<Rightarrow> (Inl (Inl NotBootstrapped), w)
               | Some token \<Rightarrow> (Inl (Inr token), w))
          else (Inl (Inl NotBootstrapped), w))"

definition createSpotifyApi_resume ::
  "suspended \<Rightarrow> failure + token_data \<Rightarrow> world \<Rightarrow> (error + string) \<times> world" where
  "createSpotifyApi_resume s reply w =
     (case s of
        Suspended config now \<Rightarrow>
          (case refreshResult reply of
             Inl e \<Rightarrow> (Inl e, w)
           | Inr tokens \<Rightarrow>
               (case saveSpotifyConfig
                       (config\<lparr>accessToken := Some (access_token tokens),
                               expiresAt := Some (int now + expires_in tokens * 1000)\<rparr>) w of
                  Inl e \<Rightarrow> (Inl e, w)
                | Inr w2 \<Rightarrow> (Inr (access_token tokens), w2))))"

text \<open>
  Two calls \<open>A\<close> and \<open>B\<close> in one process, \<open>B\<close> made while \<open>A\<close> is suspended. Each has
  its own clock reading and its own answer from the endpoint; \<open>aFirst\<close> says whose answer
  arrives first. When \<open>A\<close> finishes without suspending, \<open>B\<close> simply runs after it.
\<close>

definition concurrentPair ::
  "bool \<Rightarrow> nat \<Rightarrow> failure + token_data \<Rightarrow> nat \<Rightarrow> failure + token_data \<Rightarrow> world
     \<Rightarrow> ((error + string) \<times> (error + string)) \<times> world" where
  "concurrentPair aFirst nowA replyA nowB replyB w =
     (case createSpotifyApi_start nowA w of
        (Inl rA, w1) \<Rightarrow>
          (case createSpotifyApi replyB nowB w1 of (rB, w2) \<Rightarrow> ((rA, rB), w2))
      | (Inr sA, w1) \<Rightarrow>
          (case createSpotifyApi_start nowB w1 of
             (Inl rB, w2) \<Rightarrow>
               (case createSpotifyApi_resume sA replyA w2 of (rA, w3) \<Rightarrow> ((rA, rB), w3))
           | (Inr sB, w2) \<Rightarrow>
               if aFirst then
                 (case createSpotifyApi_resume sA replyA w2 of
                    (rA, w3) \<Rightarrow>
                      (case createSpotifyApi_resume sB replyB w3 of
                         (rB, w4) \<Rightarrow> ((rA, rB), w4)))
               else
                 (case createSpotifyApi_resume sB replyB w2 of
                    (rB, w3) \<Rightarrow>
                      (case createSpotifyApi_resume sA replyA w3 of
                         (rA, w4) \<Rightarrow> ((rA, rB), w4)))))"

subsection \<open>The bootstrapper\<close>



section \<open>The tool layer\<close>

subsection \<open>Results, strings and the Spotify API\<close>

text \<open>
  A handler returns \<^verbatim>\<open>{ content: [{ type: 'text', text: ... }] }\<close>. The dispatcher's
  answer may carry \<open>isError\<close> as well; \<open>None\<close> is an object without that field.
\<close>

record content_item =
  type' :: string
  text' :: string

record tool_result =
  content :: "content_item list"

record call_result = tool_result +
  isError :: "bool option"

definition textResult :: "string \<Rightarrow> tool_result" where
  "textResult s = \<lparr>content = [\<lparr>type' = ''text'', text' = s\<rparr>]\<rparr>"

text \<open>
  Template literals print a non-negative integer in decimal; \<open>Array.prototype.join\<close>
  puts the separator between the elements.
\<close>

definition digit :: "nat \<Rightarrow> char" where
  "digit n = ''0123456789'' ! n"

function numberToString :: "nat \<Rightarrow> string" where
  "numberToString n =
     (if n < 10 then [digit n] else numberToString (n div 10) @ [digit (n mod 10)])"
  by pat_completeness auto
termination
  by (relation "measure id") auto

fun join :: "string \<Rightarrow> string list \<Rightarrow> string" where
  "join sep [] = []"
| "join sep [x] = x"
| "join sep (x # y # ys) = x @ sep @ join sep (y # ys)"

abbreviation newline :: string where
  "newline \<equiv> [CHR 0x0A]"

abbreviation dquote :: string where
  "dquote \<equiv> [CHR 0x22]"

text \<open>
  The calls the modelled handlers make on the Spotify Web API client, each through
  \<open>handleSpotifyRequest\<close>. That function lives in \<^verbatim>\<open>src/utils.ts\<close>, which is not among
  the sources: the model takes the API as a parameter, a function from a call to what
  the awaited request yields, \<open>Inl\<close> the message of the error it throws. Every request is
  appended to a log.
\<close>

datatype spotify_call =
    AlbumsGet "string list"
  | SaveAlbums "string list"
  | RemoveAlbums "string list"
  | HasSavedAlbums "string list"
  | GetAvailableDevices

definition handleSpotifyRequest ::
  "(spotify_call \<Rightarrow> string + 'a) \<Rightarrow> spotify_call \<Rightarrow> spotify_call list
     \<Rightarrow> (string + 'a) \<times> spotify_call list" where
  "handleSpotifyRequest api call log = (api call, log @ [call])"

subsection \<open>The album tools with an \<open>albumIds\<close> array\<close>

record artist =
  artist_name :: string

record album =
  album_name :: string
  artists :: "artist list"
  release_date :: string
  total_tracks :: nat
  album_id :: string

text \<open>One line of the listing of \<open>getMultipleAlbums\<close> (lines 95-100); \<open>i\<close> is the index.\<close>

definition formatAlbum :: "nat \<Rightarrow> album option \<Rightarrow> string" where
  "formatAlbum i entry =
     (case entry of
        None \<Rightarrow> numberToString (i + 1) @ ''. [Album not found]''
      | Some a \<Rightarrow>
          numberToString (i + 1) @ ''. '' @ dquote @ album_name a @ dquote @ '' by '' @
          join '', '' (map artist_name (artists a)) @
          '' ('' @ release_date a @ '') - '' @ numberToString (total_tracks a) @
          '' tracks - ID: '' @ album_id a)"

definition getMultipleAlbums ::
  "(spotify_call \<Rightarrow> string + album option list) \<Rightarrow> string list \<Rightarrow> spotify_call list
     \<Rightarrow> tool_result \<times> spotify_call list" where
  "getMultipleAlbums api albumIds log =
     (if length albumIds = 0 then (textResult ''Error: No album IDs provided'', log)
      else
        (case handleSpotifyRequest api (AlbumsGet albumIds) log of
           (Inl message, log1) \<Rightarrow> (textResult (''Error getting albums: '' @ message), log1)
         | (Inr albums, log1) \<Rightarrow>
             if length albums = 0 then
               (textResult ''No albums found for the provided IDs'', log1)
             else
               (textResult
                  (''# Multiple Albums'' @ newline @ newline @
                   join newline (map (\<lambda>(i, a). formatAlbum i a) (enumerate 0 albums))),
                log1)))"

text \<open>\<^verbatim>\<open>album${albumIds.length === 1 ? '' : 's'}\<close> (lines 383 and 433).\<close>

definition plural :: "nat \<Rightarrow> string" where
  "plural n = (if n = 1 then [] else ''s'')"

definition saveAlbumsForUser ::
  "(spotify_call \<Rightarrow> string + unit) \<Rightarrow> string list \<Rightarrow> spotify_call list
     \<Rightarrow> tool_result \<times> spotify_call list" where
  "saveAlbumsForUser api albumIds log =
     (if length albumIds = 0 then (textResult ''Error: No album IDs provided'', log)
      else
        (case handleSpotifyRequest api (SaveAlbums albumIds) log of
           (Inl message, log1) \<Rightarrow> (textResult (''Error saving albums: '' @ message), log1)
         | (Inr _, log1) \<Rightarrow>
             (textResult
                (''Successfully saved '' @ numberToString (length albumIds) @ '' album'' @
                 plural (length albumIds) @ '' to your library''),
              log1)))"

definition removeAlbumsForUser ::
  "(spotify_call \<Rightarrow> string + unit) \<Rightarrow> string list \<Rightarrow> spotify_call list
     \<Rightarrow> tool_result \<times> spotify_call list" where
  "removeAlbumsForUser api albumIds log =
     (if length albumIds = 0 then (textResult ''Error: No album IDs provided'', log)
      else
        (case handleSpotifyRequest api (RemoveAlbums albumIds) log of
           (Inl message, log1) \<Rightarrow> (textResult (''Error removing albums: '' @ message), log1)
         | (Inr _, log1) \<Rightarrow>
             (textResult
                (''Successfully removed '' @ numberToString (length albumIds) @ '' album'' @
                 plural (length albumIds) @ '' from your library''),
              log1)))"

text \<open>
  Line 481: \<open>savedStatus[i]\<close> beyond the end of the array is \<open>undefined\<close>, which is
  falsy.
\<close>

definition formatSaved :: "bool list \<Rightarrow> nat \<Rightarrow> string \<Rightarrow> string" where
  "formatSaved savedStatus i albumId =
     numberToString (i + 1) @ ''. '' @ albumId @ '': '' @
     (if i < length savedStatus \<and> savedStatus ! i then ''Saved'' else ''Not saved'')"

definition checkUsersSavedAlbums ::
  "(spotify_call \<Rightarrow> string + bool list) \<Rightarrow> string list \<Rightarrow> spotify_call list
     \<Rightarrow> tool_result \<times> spotify_call list" where
  "checkUsersSavedAlbums api albumIds log =
     (if length albumIds = 0 then (textResult ''Error: No album IDs provided'', log)
      else
        (case handleSpotifyRequest api (HasSavedAlbums albumIds) log of
           (Inl message, log1) \<Rightarrow>
             (textResult (''Error checking saved albums: '' @ message), log1)
         | (Inr savedStatus, log1) \<Rightarrow>
             (textResult
                (''# Album Save Status'' @ newline @ newline @
                 join newline
                   (map (\<lambda>(i, albumId). formatSaved savedStatus i albumId)
                      (enumerate 0 albumIds))),
              log1)))"

subsection \<open>The devices tool\<close>

text \<open>
  \<^verbatim>\<open>src/devices.ts\<close>: the handler has no \<open>try\<close>, so an error of the request leaves it
  as an exception (\<open>Inl\<close>). The \<open>id\<close> of a device may be \<open>null\<close>, printed as such.
\<close>

record device =
  device_name :: string
  device_id :: "string option"

definition formatDevice :: "device \<Rightarrow> string" where
  "formatDevice d =
     newline @ ''- '' @ device_name d @ '' ('' @
     (case device_id d of None \<Rightarrow> ''null'' | Some i \<Rightarrow> i) @ '')''"

definition getAvailableDevices ::
  "(spotify_call \<Rightarrow> string + device list) \<Rightarrow> spotify_call list
     \<Rightarrow> (string + tool_result) \<times> spotify_call list" where
  "getAvailableDevices api log =
     (case handleSpotifyRequest api GetAvailableDevices log of
        (Inl message, log1) \<Rightarrow> (Inl message, log1)
      | (Inr devices, log1) \<Rightarrow>
          (Inr (textResult (''Available devices: '' @ join [] (map formatDevice devices))),
           log1))"

subsection \<open>The dispatcher\<close>

text \<open>
  A tool of the catalog: its name and its handler (\<^verbatim>\<open>src/index.ts\<close>). A handler takes
  the arguments of the request and acts on a world; it returns a result or throws, \<open>Inl\<close>
  the message of the error (line 153: \<open>error.message\<close>, or \<open>String(error)\<close>). The
  catalog is \<open>allTools\<close> (lines 12-17); \<open>readTools\<close> and \<open>playTools\<close> are modules that
  are not among the sources, so the four lists are parameters.
\<close>

record ('args, 'w) tool =
  name :: string
  handler :: "'args \<Rightarrow> 'w \<Rightarrow> (string + tool_result) \<times> 'w"

definition allTools ::
  "('args, 'w) tool list \<Rightarrow> ('args, 'w) tool list \<Rightarrow> ('args, 'w) tool list
     \<Rightarrow> ('args, 'w) tool list \<Rightarrow> ('args, 'w) tool list" where
  "allTools readTools playTools albumTools deviceTools =
     readTools @ playTools @ albumTools @ deviceTools"

text \<open>
  The handler of \<open>CallToolRequestSchema\<close> (lines 125-160). \<open>Inl\<close> is the error the
  handler of the request throws itself, before its \<open>try\<close> block; \<open>Inr\<close> is the object
  it returns.
\<close>

definition callTool ::
  "('args, 'w) tool list \<Rightarrow> string \<Rightarrow> 'args \<Rightarrow> 'w \<Rightarrow> (string + call_result) \<times> 'w" where
  "callTool tools n args w =
     (case find (\<lambda>t. name t = n) tools of
        None \<Rightarrow> (Inl (''Tool not found: '' @ n), w)
      | Some t \<Rightarrow>
          (case handler t args w of
             (Inr result, w1) \<Rightarrow> (Inr \<lparr>content = content result, isError = None\<rparr>, w1)
           | (Inl message, w1) \<Rightarrow>
               (Inr \<lparr>content =
                       [\<lparr>type' = ''text'',
                         text' = ''Error executing tool '' @ dquote @ n @ dquote @ '': '' @
                                 message\<rparr>],
                     isError = Some True\<rparr>,
                w1)))"

declare numberToString.simps [simp del]

section \<open>Sample inputs\<close>

text \<open>
  Concrete records, worlds and endpoint answers, after the scenarios of section 8 of
  the specification and the configuration file shown in \<^verbatim>\<open>TOKEN_REFRESH_FIX.md\<close>
  (lines 200-209).
\<close>

definition sampleConfig :: "string option \<Rightarrow> string option \<Rightarrow> int option \<Rightarrow> SpotifyConfig" where
  "sampleConfig a r e =
     \<lparr>clientId = ''client'', clientSecret = ''secret'',
      redirectUri = ''http://127.0.0.1:8888/callback'',
      accessToken = a, refreshToken = r, expiresAt = e\<rparr>"

definition sampleWorld :: "SpotifyConfig \<Rightarrow> world" where
  "sampleWorld config = \<lparr>document = Some config, writable = True, refreshLog = []\<rparr>"

definition sampleData :: "string \<Rightarrow> string option \<Rightarrow> int \<Rightarrow> token_data" where
  "sampleData a r n =
     \<lparr>data_access_token = a, data_refresh_token = r, data_expires_in = n\<rparr>"

text \<open>A Spotify API whose every request fails, and a catalog holding the devices tool.\<close>

definition failingApi :: "spotify_call \<Rightarrow> string + 'a" where
  "failingApi call = Inl ''Bad or expired token''"

definition sampleTools :: "(unit, spotify_call list) tool list" where
  "sampleTools =
     allTools [] [] [] [\<lparr>name = ''devices'', handler = (\<lambda>args. getAvailableDevices failingApi)\<rparr>]"

section \<open>Properties of the credential lifecycle\<close>

lemmas sample_defs = sampleConfig_def sampleWorld_def sampleData_def

lemmas manager_defs = createSpotifyApi_def loadSpotifyConfig_def saveSpotifyConfig_def
  refreshAccessToken_def refreshResult_def truthy_def shouldRefresh_def

lemmas suspension_defs = concurrentPair_def createSpotifyApi_start_def
  createSpotifyApi_resume_def loadSpotifyConfig_def saveSpotifyConfig_def refreshResult_def
  truthy_def shouldRefresh_def

text \<open>
  The clock never reads a negative number, so the truthiness test of line 75 on the
  number 0 adds nothing to the comparison.
\<close>

lemma shouldRefresh_iff:
  "shouldRefresh config now =
     (case expiresAt config of None \<Rightarrow> True | Some e \<Rightarrow> e \<le> int now)"
  by (auto simp: shouldRefresh_def split: option.splits)

text \<open>
  The refresher is called exactly when the guard of line 73 and the test of line 75 both
  hold.
\<close>

lemma refresher_invoked_iff:
  assumes "document w = Some config"
  shows "refreshLog (snd (createSpotifyApi reply now w)) \<noteq> refreshLog w \<longleftrightarrow>
         truthy (accessToken config) \<and> truthy (refreshToken config) \<and>
         shouldRefresh config now"
  using assms
  by (auto simp: createSpotifyApi_def loadSpotifyConfig_def saveSpotifyConfig_def
        refreshAccessToken_def split: sum.splits option.splits)

text \<open>
  The two stretches of a call, run one after the other with nothing in between, are
  the call.
\<close>

lemma createSpotifyApi_start_resume:
  "createSpotifyApi reply now w =
     (case createSpotifyApi_start now w of
        (Inl r, w1) \<Rightarrow> (r, w1)
      | (Inr s, w1) \<Rightarrow> createSpotifyApi_resume s reply w1)"
  by (simp add: createSpotifyApi_def createSpotifyApi_start_def createSpotifyApi_resume_def
        refreshAccessToken_def split: sum.splits option.splits)

subsection \<open>C1: a token that has not expired is used as it is\<close>

text \<open>
  C1, as stated, at a record that holds an access token and an \<open>expiresAt\<close> 60 seconds
  ahead of the clock but no refresh token: the guard of line 73 is false, the block that
  creates the API instance with the token is skipped, and the cached token \<open>A1\<close> is not
  what the call yields.
\<close>

theorem createSpotifyApi_cached_token_needs_refresh_token:
  "expiresAt (sampleConfig (Some ''A1'') None (Some 61000)) = Some 61000 \<and>
   int 1000 < 61000 \<and>
   fst (createSpotifyApi (Inr (sampleData ''A2'' None 3600)) 1000
          (sampleWorld (sampleConfig (Some ''A1'') None (Some 61000)))) = Inl NotBootstrapped \<and>
   fst (createSpotifyApi (Inr (sampleData ''A2'' None 3600)) 1000
          (sampleWorld (sampleConfig (Some ''A1'') None (Some 61000)))) \<noteq> Inr ''A1''"
  by (simp add: manager_defs sample_defs)

text \<open>
  C1, amended. For every record whose \<open>expiresAt\<close> is present and strictly in the future
  at the time of the call, \<open>createSpotifyApi\<close> leaves the world as it is: the refresher
  is not called and nothing is saved. When the access token and the refresh token are
  both present and not empty, it returns the cached access token. The test of expiry is
  exactly: expired iff \<open>expiresAt\<close> is absent or \<open>now \<ge> expiresAt\<close>.
\<close>

theorem createSpotifyApi_unexpired_returns_cached:
  assumes "document w = Some config"
    and "expiresAt config = Some e"
    and "int now < e"
  shows "snd (createSpotifyApi reply now w) = w \<and>
         (\<forall>token. accessToken config = Some token \<and> token \<noteq> [] \<and>
                  truthy (refreshToken config) \<longrightarrow>
                  fst (createSpotifyApi reply now w) = Inr token) \<and>
         (\<forall>c n. shouldRefresh c n =
                  (case expiresAt c of None \<Rightarrow> True | Some x \<Rightarrow> int n \<ge> x))"
  using assms
  by (auto simp: createSpotifyApi_def loadSpotifyConfig_def shouldRefresh_def truthy_def
        split: option.splits)

text \<open>
  C1, witness: the scenario of section 8, a record with token \<open>A1\<close> that expires 60
  seconds after the clock reading 1000. The call returns \<open>A1\<close> and the world is
  untouched.
\<close>

theorem createSpotifyApi_unexpired_returns_cached_witness:
  "document (sampleWorld (sampleConfig (Some ''A1'') (Some ''R1'') (Some 61000))) =
     Some (sampleConfig (Some ''A1'') (Some ''R1'') (Some 61000)) \<and>
   expiresAt (sampleConfig (Some ''A1'') (Some ''R1'') (Some 61000)) = Some 61000 \<and>
   int 1000 < 61000 \<and>
   createSpotifyApi (Inr (sampleData ''A2'' None 3600)) 1000
       (sampleWorld (sampleConfig (Some ''A1'') (Some ''R1'') (Some 61000)))
     = (Inr ''A1'', sampleWorld (sampleConfig (Some ''A1'') (Some ''R1'') (Some 61000)))"
  using createSpotifyApi_unexpired_returns_cached
          [of "sampleWorld (sampleConfig (Some ''A1'') (Some ''R1'') (Some 61000))"
              "sampleConfig (Some ''A1'') (Some ''R1'') (Some 61000)" 61000 1000
              "Inr (sampleData ''A2'' None 3600)"]
  by (simp add: sample_defs truthy_def prod_eq_iff)

subsection \<open>C2: an expired token is refreshed once and the record saved\<close>

text \<open>
  C2, as stated, at a record without \<open>expiresAt\<close> that holds a refresh token but no
  access token: the guard of line 73 is false, so the refresher is not called at all,
  nothing is saved and no token is returned.
\<close>

theorem createSpotifyApi_no_refresh_without_access_token:
  "expiresAt (sampleConfig None (Some ''R1'') None) = None \<and>
   createSpotifyApi (Inr (sampleData ''A2'' None 3600)) 5000
       (sampleWorld (sampleConfig None (Some ''R1'') None))
     = (Inl NotBootstrapped, sampleWorld (sampleConfig None (Some ''R1'') None)) \<and>
   refreshLog (snd (createSpotifyApi (Inr (sampleData ''A2'' None 3600)) 5000
       (sampleWorld (sampleConfig None (Some ''R1'') None)))) = []"
  by (simp add: manager_defs sample_defs)

text \<open>
  C2, amended. For every record in which the access token and the refresh token are
  both present and not empty, and whose \<open>expiresAt\<close> is absent or not in the future,
  \<open>createSpotifyApi\<close> calls the refresher exactly once; when the refresher succeeds and
  the store accepts the write, the record with the new access token and the new
  \<open>expiresAt\<close> is the saved document of the world in which the new access token is
  returned.
\<close>

theorem createSpotifyApi_expired_refreshes_once:
  assumes "document w = Some config"
    and "truthy (accessToken config)"
    and "truthy (refreshToken config)"
    and "case expiresAt config of None \<Rightarrow> True | Some e \<Rightarrow> e \<le> int now"
  shows "refreshLog (snd (createSpotifyApi reply now w)) = refreshLog w @ [config] \<and>
         (\<forall>tokens. refreshResult reply = Inr tokens \<and> writable w \<longrightarrow>
            createSpotifyApi reply now w =
              (Inr (access_token tokens),
               w\<lparr>refreshLog := refreshLog w @ [config],
                  document := Some (config\<lparr>accessToken := Some (access_token tokens),
                                   expiresAt := Some (int now + expires_in tokens * 1000)\<rparr>)\<rparr>))"
  using assms
  by (auto simp: createSpotifyApi_def loadSpotifyConfig_def saveSpotifyConfig_def
        refreshAccessToken_def shouldRefresh_iff split: sum.splits)

text \<open>
  C2, witness: the scenario of section 8, token \<open>A1\<close> expired one second before the clock
  reading 5000, and a refresher that returns \<open>A2\<close> valid for 3600 seconds. The call
  returns \<open>A2\<close>, the log holds one call, and the document holds \<open>A2\<close> with
  \<open>expiresAt = 5000 + 3600000\<close>.
\<close>

theorem createSpotifyApi_expired_refreshes_once_witness:
  "truthy (accessToken (sampleConfig (Some ''A1'') (Some ''R1'') (Some 4000))) \<and>
   truthy (refreshToken (sampleConfig (Some ''A1'') (Some ''R1'') (Some 4000))) \<and>
   createSpotifyApi (Inr (sampleData ''A2'' None 3600)) 5000
       (sampleWorld (sampleConfig (Some ''A1'') (Some ''R1'') (Some 4000)))
     = (Inr ''A2'',
        \<lparr>document = Some (sampleConfig (Some ''A2'') (Some ''R1'') (Some 3605000)),
         writable = True,
         refreshLog = [sampleConfig (Some ''A1'') (Some ''R1'') (Some 4000)]\<rparr>)"
  using createSpotifyApi_expired_refreshes_once
          [of "sampleWorld (sampleConfig (Some ''A1'') (Some ''R1'') (Some 4000))"
              "sampleConfig (Some ''A1'') (Some ''R1'') (Some 4000)" 5000
              "Inr (sampleData ''A2'' None 3600)"]
  by (simp add: sample_defs truthy_def refreshResult_def)

subsection \<open>C3: the refreshed record read back from the store\<close>



subsection \<open>C4: the refresh token across a refresh\<close>

text \<open>
  C4, as stated, at a refresh in which the endpoint supplies the new refresh token \<open>R2\<close>:
  the result of \<open>refreshAccessToken\<close> has no field for it and \<open>createSpotifyApi\<close> assigns
  only \<open>accessToken\<close> and \<open>expiresAt\<close>, so the saved record still holds \<open>R1\<close>.
\<close>

theorem rotated_refresh_token_not_persisted:
  "data_refresh_token (sampleData ''A2'' (Some ''R2'') 3600) = Some ''R2'' \<and>
   refreshLog (snd (createSpotifyApi (Inr (sampleData ''A2'' (Some ''R2'') 3600)) 5000
       (sampleWorld (sampleConfig (Some ''A1'') (Some ''R1'') (Some 4000)))))
     = [sampleConfig (Some ''A1'') (Some ''R1'') (Some 4000)] \<and>
   document (snd (createSpotifyApi (Inr (sampleData ''A2'' (Some ''R2'') 3600)) 5000
       (sampleWorld (sampleConfig (Some ''A1'') (Some ''R1'') (Some 4000)))))
     = Some (sampleConfig (Some ''A2'') (Some ''R1'') (Some 3605000)) \<and>
   refreshToken (sampleConfig (Some ''A2'') (Some ''R1'') (Some 3605000)) \<noteq> Some ''R2''"
  by (simp add: manager_defs sample_defs)

text \<open>
  C4, amended. For every refresh, whether the token endpoint supplies a new refresh
  token or none, and whether the refresh succeeds or fails, the persisted \<open>refreshToken\<close>
  after the call is the one the record held before.
\<close>

theorem refresh_keeps_refresh_token:
  assumes "document w = Some config"
    and "refreshLog (snd (createSpotifyApi reply now w)) \<noteq> refreshLog w"
  shows "\<exists>r. document (snd (createSpotifyApi reply now w)) = Some r \<and>
             refreshToken r = refreshToken config"
proof -
  from assms
  have "truthy (accessToken config) \<and> truthy (refreshToken config) \<and>
        shouldRefresh config now"
    by (simp add: refresher_invoked_iff)
  with assms(1) show ?thesis
    by (simp add: createSpotifyApi_def loadSpotifyConfig_def saveSpotifyConfig_def
        refreshAccessToken_def split: sum.splits)
qed

text \<open>
  C4, witness: the endpoint supplies no refresh token; the record holds \<open>R1\<close> before
  and after the refresh.
\<close>

theorem refresh_keeps_refresh_token_witness:
  "refreshLog (snd (createSpotifyApi (Inr (sampleData ''A2'' None 3600)) 9000
       (sampleWorld (sampleConfig (Some ''A1'') (Some ''R1'') (Some 8000)))))
     \<noteq> refreshLog (sampleWorld (sampleConfig (Some ''A1'') (Some ''R1'') (Some 8000))) \<and>
   map_option refreshToken
     (document (snd (createSpotifyApi (Inr (sampleData ''A2'' None 3600)) 9000
       (sampleWorld (sampleConfig (Some ''A1'') (Some ''R1'') (Some 8000))))))
     = Some (Some ''R1'')"
  using refresh_keeps_refresh_token
          [of "sampleWorld (sampleConfig (Some ''A1'') (Some ''R1'') (Some 8000))"
              "sampleConfig (Some ''A1'') (Some ''R1'') (Some 8000)"
              "Inr (sampleData ''A2'' None 3600)" 9000]
  by (simp add: manager_defs sample_defs)

subsection \<open>C5: a rejected refresh\<close>

text \<open>
  C5. For every call of \<open>createSpotifyApi\<close> whose refresh the token endpoint rejects, the
  call fails with \<open>AuthExpired\<close>; the refresher has been called once and not again, and
  the world is otherwise as before: the document, with its \<open>accessToken\<close> and
  \<open>refreshToken\<close>, is untouched.
\<close>

theorem rejected_refresh_is_AuthExpired:
  assumes "document w = Some config"
    and "refreshLog (snd (createSpotifyApi (Inl (Rejected msg)) now w)) \<noteq> refreshLog w"
  shows "createSpotifyApi (Inl (Rejected msg)) now w =
           (Inl AuthExpired, w\<lparr>refreshLog := refreshLog w @ [config]\<rparr>)"
proof -
  from assms
  have "truthy (accessToken config) \<and> truthy (refreshToken config) \<and>
        shouldRefresh config now"
    by (simp add: refresher_invoked_iff)
  with assms(1) show ?thesis
    by (simp add: createSpotifyApi_def loadSpotifyConfig_def refreshAccessToken_def
        refreshResult_def)
qed

text \<open>
  C5, witness: the expired token \<open>A1\<close> and a revoked refresh token \<open>R1\<close>. The call
  fails with \<open>AuthExpired\<close> after one request, and the document still holds \<open>A1\<close>,
  \<open>R1\<close> and the old \<open>expiresAt\<close>.
\<close>

theorem rejected_refresh_is_AuthExpired_witness:
  "createSpotifyApi (Inl (Rejected ''invalid_grant'')) 5000
       (sampleWorld (sampleConfig (Some ''A1'') (Some ''R1'') (Some 4000)))
     = (Inl AuthExpired,
        \<lparr>document = Some (sampleConfig (Some ''A1'') (Some ''R1'') (Some 4000)),
         writable = True,
         refreshLog = [sampleConfig (Some ''A1'') (Some ''R1'') (Some 4000)]\<rparr>)"
  using rejected_refresh_is_AuthExpired
          [of "sampleWorld (sampleConfig (Some ''A1'') (Some ''R1'') (Some 4000))"
              "sampleConfig (Some ''A1'') (Some ''R1'') (Some 4000)"
              "''invalid_grant''" 5000]
  by (simp add: manager_defs sample_defs)

subsection \<open>C6: two calls at once\<close>

text \<open>
  C6, as stated, at two calls made at clock readings 5000 and 5001 on a record that
  expired at 4000, the second made while the first awaits its refresh: nothing in
  \<open>createSpotifyApi\<close> records a refresh in flight, so each call sends a request of its
  own. Two calls of the refresher are logged, and the callers get the different tokens
  \<open>A2\<close> and \<open>A3\<close> the endpoint issued.
\<close>

theorem concurrent_calls_both_refresh:
  "length (refreshLog (snd (concurrentPair True
       5000 (Inr (sampleData ''A2'' None 3600)) 5001 (Inr (sampleData ''A3'' None 3600))
       (sampleWorld (sampleConfig (Some ''A1'') (Some ''R1'') (Some 4000)))))) = 2 \<and>
   fst (concurrentPair True
       5000 (Inr (sampleData ''A2'' None 3600)) 5001 (Inr (sampleData ''A3'' None 3600))
       (sampleWorld (sampleConfig (Some ''A1'') (Some ''R1'') (Some 4000))))
     = (Inr ''A2'', Inr ''A3'') \<and>
   ''A2'' \<noteq> ''A3''"
  by (simp add: suspension_defs sample_defs)

text \<open>
  C6, amended. For every pair of concurrent calls of \<open>createSpotifyApi\<close> within one
  process that both observe an expired record (with both tokens present), each call
  makes a refresh request of its own, two in all, whatever the endpoint answers and
  whether or not the store accepts a write. A call whose refresh fails ends with that
  failure. When both refreshes succeed and the store accepts the writes, each call
  resolves to the access token of its own refresh, and the document holds the record
  saved by the call whose answer arrived last.
\<close>

theorem concurrent_calls_refresh_twice:
  assumes "document w = Some config"
    and "truthy (accessToken config)" and "truthy (refreshToken config)"
    and "shouldRefresh config nowA" and "shouldRefresh config nowB"
  shows "refreshLog (snd (concurrentPair aFirst nowA replyA nowB replyB w)) =
           refreshLog w @ [config, config] \<and>
         (\<forall>e. refreshResult replyA = Inl e \<longrightarrow>
            fst (fst (concurrentPair aFirst nowA replyA nowB replyB w)) = Inl e) \<and>
         (\<forall>e. refreshResult replyB = Inl e \<longrightarrow>
            snd (fst (concurrentPair aFirst nowA replyA nowB replyB w)) = Inl e) \<and>
         (\<forall>dataA dataB. replyA = Inr dataA \<and> replyB = Inr dataB \<and> writable w \<longrightarrow>
            concurrentPair aFirst nowA replyA nowB replyB w =
              ((Inr (data_access_token dataA), Inr (data_access_token dataB)),
               w\<lparr>refreshLog := refreshLog w @ [config, config],
                  document := Some
                    (if aFirst
                     then config\<lparr>accessToken := Some (data_access_token dataB),
                            expiresAt := Some (int nowB + data_expires_in dataB * 1000)\<rparr>
                     else config\<lparr>accessToken := Some (data_access_token dataA),
                            expiresAt := Some (int nowA + data_expires_in dataA * 1000)\<rparr>)\<rparr>))"
  using assms
  by (auto simp: concurrentPair_def createSpotifyApi_start_def createSpotifyApi_resume_def
      loadSpotifyConfig_def saveSpotifyConfig_def refreshResult_def
      split: sum.splits failure.splits)

text \<open>
  C6, witness: the same two calls with the answer to the second arriving first. The
  log holds two requests; the first caller gets \<open>A2\<close>, the second \<open>A3\<close>, and the
  document ends with \<open>A2\<close>. When the endpoint rejects the first refresh instead, the
  log still holds two requests, the first caller fails with \<open>AuthExpired\<close> and the
  second gets \<open>A3\<close>.
\<close>

theorem concurrent_calls_refresh_twice_witness:
  "shouldRefresh (sampleConfig (Some ''A1'') (Some ''R1'') (Some 4000)) 5000 \<and>
   shouldRefresh (sampleConfig (Some ''A1'') (Some ''R1'') (Some 4000)) 5001 \<and>
   concurrentPair False
       5000 (Inr (sampleData ''A2'' None 3600)) 5001 (Inr (sampleData ''A3'' None 3600))
       (sampleWorld (sampleConfig (Some ''A1'') (Some ''R1'') (Some 4000)))
     = ((Inr ''A2'', Inr ''A3''),
        \<lparr>document = Some (sampleConfig (Some ''A2'') (Some ''R1'') (Some 3605000)),
         writable = True,
         refreshLog = [sampleConfig (Some ''A1'') (Some ''R1'') (Some 4000),
                       sampleConfig (Some ''A1'') (Some ''R1'') (Some 4000)]\<rparr>) \<and>
   concurrentPair False
       5000 (Inl (Rejected ''invalid_grant'')) 5001 (Inr (sampleData ''A3'' None 3600))
       (sampleWorld (sampleConfig (Some ''A1'') (Some ''R1'') (Some 4000)))
     = ((Inl AuthExpired, Inr ''A3''),
        \<lparr>document = Some (sampleConfig (Some ''A3'') (Some ''R1'') (Some 3605001)),
         writable = True,
         refreshLog = [sampleConfig (Some ''A1'') (Some ''R1'') (Some 4000),
                       sampleConfig (Some ''A1'') (Some ''R1'') (Some 4000)]\<rparr>)"
  using concurrent_calls_refresh_twice
          [of "sampleWorld (sampleConfig (Some ''A1'') (Some ''R1'') (Some 4000))"
              "sampleConfig (Some ''A1'') (Some ''R1'') (Some 4000)" 5000 5001 False
              "Inr (sampleData ''A2'' None 3600)" "Inr (sampleData ''A3'' None 3600)"]
        concurrent_calls_refresh_twice
          [of "sampleWorld (sampleConfig (Some ''A1'') (Some ''R1'') (Some 4000))"
              "sampleConfig (Some ''A1'') (Some ''R1'') (Some 4000)" 5000 5001 False
              "Inl (Rejected ''invalid_grant'')" "Inr (sampleData ''A3'' None 3600)"]
  by (simp add: suspension_defs sample_defs)

subsection \<open>C7: the bootstrap\<close>



subsection \<open>C8: a record without tokens\<close>

text \<open>
  C8. For every record in which \<open>accessToken\<close> and \<open>refreshToken\<close> are both absent,
  \<open>createSpotifyApi\<close> fails with \<open>NotBootstrapped\<close> and the world is as before: the
  refresher is not called and the store is not written.
\<close>

theorem createSpotifyApi_not_bootstrapped:
  assumes "document w = Some config"
    and "accessToken config = None"
    and "refreshToken config = None"
  shows "createSpotifyApi reply now w = (Inl NotBootstrapped, w)"
  using assms by (simp add: createSpotifyApi_def loadSpotifyConfig_def truthy_def)

text \<open>C8, witness: a record that holds the identity of the application only.\<close>

theorem createSpotifyApi_not_bootstrapped_witness:
  "accessToken (sampleConfig None None None) = None \<and>
   refreshToken (sampleConfig None None None) = None \<and>
   createSpotifyApi (Inr (sampleData ''A2'' None 3600)) 5000
       (sampleWorld (sampleConfig None None None))
     = (Inl NotBootstrapped, sampleWorld (sampleConfig None None None))"
  using createSpotifyApi_not_bootstrapped
          [of "sampleWorld (sampleConfig None None None)" "sampleConfig None None None"
              "Inr (sampleData ''A2'' None 3600)" 5000]
  by (simp add: sample_defs)

section \<open>Properties of the tool layer\<close>

subsection \<open>C9: an empty \<open>albumIds\<close> array\<close>

text \<open>
  With a non-empty array each of the four handlers makes exactly one request, with the
  array it was given.
\<close>

lemma nonempty_albumIds_one_request:
  assumes "albumIds \<noteq> []"
  shows "snd (getMultipleAlbums api1 albumIds log) = log @ [AlbumsGet albumIds]"
    and "snd (saveAlbumsForUser api2 albumIds log) = log @ [SaveAlbums albumIds]"
    and "snd (removeAlbumsForUser api3 albumIds log) = log @ [RemoveAlbums albumIds]"
    and "snd (checkUsersSavedAlbums api4 albumIds log) = log @ [HasSavedAlbums albumIds]"
  using assms
  by (simp_all add: getMultipleAlbums_def saveAlbumsForUser_def removeAlbumsForUser_def
      checkUsersSavedAlbums_def handleSpotifyRequest_def split: sum.splits)

text \<open>The handlers on small inputs.\<close>

lemma saveAlbumsForUser_example:
  "saveAlbumsForUser (\<lambda>call. Inr ()) [''4aawyAB9vmqN3uQ7FjRGTy''] [] =
     (textResult ''Successfully saved 1 album to your library'',
      [SaveAlbums [''4aawyAB9vmqN3uQ7FjRGTy'']])"
  by (simp add: saveAlbumsForUser_def handleSpotifyRequest_def plural_def digit_def
      numberToString.simps)

lemma removeAlbumsForUser_example:
  "removeAlbumsForUser failingApi [''a'', ''b''] [] =
     (textResult ''Error removing albums: Bad or expired token'',
      [RemoveAlbums [''a'', ''b'']])"
  by (simp add: removeAlbumsForUser_def handleSpotifyRequest_def failingApi_def)

lemma checkUsersSavedAlbums_example:
  "checkUsersSavedAlbums (\<lambda>call. Inr [True]) [''a'', ''b''] [] =
     (textResult (''# Album Save Status'' @ newline @ newline @
                  ''1. a: Saved'' @ newline @ ''2. b: Not saved''),
      [HasSavedAlbums [''a'', ''b'']])"
  by (simp add: checkUsersSavedAlbums_def handleSpotifyRequest_def formatSaved_def digit_def
      numberToString.simps enumerate_eq_zip upt_rec)

lemma getMultipleAlbums_example:
  "getMultipleAlbums
     (\<lambda>call. Inr [Some \<lparr>album_name = ''Dawn'', artists = [\<lparr>artist_name = ''Ann''\<rparr>,
                       \<lparr>artist_name = ''Bob''\<rparr>], release_date = ''2020-01-31'',
                       total_tracks = 12, album_id = ''a''\<rparr>, None])
     [''a'', ''b''] [] =
     (textResult (''# Multiple Albums'' @ newline @ newline @
                  ''1. '' @ dquote @ ''Dawn'' @ dquote @
                  '' by Ann, Bob (2020-01-31) - 12 tracks - ID: a'' @ newline @
                  ''2. [Album not found]''),
      [AlbumsGet [''a'', ''b'']])"
  by (simp add: getMultipleAlbums_def handleSpotifyRequest_def formatAlbum_def digit_def
      numberToString.simps enumerate_eq_zip upt_rec)

lemma getAvailableDevices_example:
  "getAvailableDevices
     (\<lambda>call. Inr [\<lparr>device_name = ''Phone'', device_id = Some ''d1''\<rparr>,
                  \<lparr>device_name = ''TV'', device_id = None\<rparr>]) [] =
     (Inr (textResult (''Available devices: '' @ newline @ ''- Phone (d1)'' @ newline @
                       ''- TV (null)'')),
      [GetAvailableDevices])"
  by (simp add: getAvailableDevices_def handleSpotifyRequest_def formatDevice_def)

text \<open>
  C9. Each of the four album tools that take an \<open>albumIds\<close> array, called with the
  empty array, returns the single text item \<open>Error: No album IDs provided\<close> and leaves
  the log of requests as it was: no request to the Spotify API is made, whatever the API
  would have answered.
\<close>

theorem empty_albumIds_no_request:
  "getMultipleAlbums api1 [] log =
     (\<lparr>content = [\<lparr>type' = ''text'', text' = ''Error: No album IDs provided''\<rparr>]\<rparr>, log) \<and>
   saveAlbumsForUser api2 [] log =
     (\<lparr>content = [\<lparr>type' = ''text'', text' = ''Error: No album IDs provided''\<rparr>]\<rparr>, log) \<and>
   removeAlbumsForUser api3 [] log =
     (\<lparr>content = [\<lparr>type' = ''text'', text' = ''Error: No album IDs provided''\<rparr>]\<rparr>, log) \<and>
   checkUsersSavedAlbums api4 [] log =
     (\<lparr>content = [\<lparr>type' = ''text'', text' = ''Error: No album IDs provided''\<rparr>]\<rparr>, log)"
  by (simp add: getMultipleAlbums_def saveAlbumsForUser_def removeAlbumsForUser_def
      checkUsersSavedAlbums_def textResult_def)

subsection \<open>C10: the dispatcher\<close>

text \<open>With distinct names, every tool of the catalog is the one found under its name.\<close>

lemma find_registered:
  "distinct (map name tools) \<Longrightarrow> t \<in> set tools \<Longrightarrow>
   find (\<lambda>u. name u = name t) tools = Some t"
  by (induction tools) (auto simp: image_iff)

text \<open>
  C10. For every request whose tool name is not in the catalog, the dispatcher throws
  the error \<open>Tool not found: <name>\<close> and the world is untouched; for every request
  whose tool is in the catalog and whose handler throws, the dispatcher returns one text
  item \<open>Error executing tool "<name>": <message>\<close> with \<open>isError\<close> set to true, in the
  world the handler left.
\<close>

theorem callTool_not_found_throws_handler_error_returned:
  "(n \<notin> set (map name tools) \<longrightarrow>
      callTool tools n args w = (Inl (''Tool not found: '' @ n), w)) \<and>
   (\<forall>t message w1.
      find (\<lambda>t. name t = n) tools = Some t \<and> handler t args w = (Inl message, w1) \<longrightarrow>
      callTool tools n args w =
        (Inr \<lparr>content =
                [\<lparr>type' = ''text'',
                  text' = ''Error executing tool '' @ dquote @ n @ dquote @ '': '' @ message\<rparr>],
              isError = Some True\<rparr>,
         w1))"
proof -
  have "find (\<lambda>t. name t = n) tools = None" if "n \<notin> set (map name tools)"
    using that by (auto simp: find_None_iff)
  then show ?thesis
    by (auto simp: callTool_def)
qed

text \<open>
  C10, witness: a catalog that holds the devices tool, with a Spotify API that rejects
  every request. The name \<open>play\<close> is not in the catalog and the dispatcher throws; the
  handler of \<open>devices\<close> throws and the dispatcher returns the error as a result.
\<close>

theorem callTool_not_found_throws_handler_error_returned_witness:
  "''play'' \<notin> set (map name sampleTools) \<and>
   callTool sampleTools ''play'' () [] = (Inl ''Tool not found: play'', []) \<and>
   find (\<lambda>t. name t = ''devices'') sampleTools =
     Some \<lparr>name = ''devices'', handler = (\<lambda>args. getAvailableDevices failingApi)\<rparr> \<and>
   getAvailableDevices failingApi [] = (Inl ''Bad or expired token'', [GetAvailableDevices]) \<and>
   callTool sampleTools ''devices'' () [] =
     (Inr \<lparr>content =
             [\<lparr>type' = ''text'',
               text' = ''Error executing tool '' @ dquote @ ''devices'' @ dquote @
                       '': Bad or expired token''\<rparr>],
           isError = Some True\<rparr>,
      [GetAvailableDevices])"
  using callTool_not_found_throws_handler_error_returned [of "''play''" sampleTools "()" "[]"]
        callTool_not_found_throws_handler_error_returned [of "''devices''" sampleTools "()" "[]"]
  by (simp add: sampleTools_def allTools_def getAvailableDevices_def
      handleSpotifyRequest_def failingApi_def)

end
